theory Spec2Isabelle
  imports Complex_Main "HOL-Library.Sublist" "HOL-Library.AList"
begin

section \<open>JavaScript strings and values\<close>

text \<open>
  A JavaScript string is represented by its UTF-8 encoding, one \<^typ>\<open>char\<close> per byte.
  \<^verbatim>\<open>new TextEncoder().encode(content).length\<close> is then the length of the list.
\<close>

definition byteLength :: "string \<Rightarrow> nat" where
  "byteLength content = length content"

definition startsWith :: "string \<Rightarrow> string \<Rightarrow> bool" where
  "startsWith s t = prefix t s"

definition endsWith :: "string \<Rightarrow> string \<Rightarrow> bool" where
  "endsWith s t = prefix (rev t) (rev s)"

fun includes_str :: "string \<Rightarrow> string \<Rightarrow> bool" where
  "includes_str [] t = (t = [])"
| "includes_str (c # cs) t = (prefix t (c # cs) \<or> includes_str cs t)"

text \<open>
  \<^verbatim>\<open>s.split(sep)\<close> for a non-empty separator: \<open>skip\<close> counts the characters of a
  separator just matched that are still to be dropped, \<open>acc\<close> is the current piece reversed.
\<close>

fun split_from :: "string \<Rightarrow> nat \<Rightarrow> string \<Rightarrow> string \<Rightarrow> string list" where
  "split_from sep skip acc [] = [rev acc]"
| "split_from sep (Suc k) acc (c # cs) = split_from sep k acc cs"
| "split_from sep 0 acc (c # cs) =
     (if sep \<noteq> [] \<and> prefix sep (c # cs)
      then rev acc # split_from sep (length sep - 1) [] cs
      else split_from sep 0 (c # acc) cs)"

definition split :: "string \<Rightarrow> string \<Rightarrow> string list" where
  "split s sep = split_from sep 0 [] s"

text \<open>\<open>xs[i]\<close> on an array: \<open>undefined\<close> out of range.\<close>

definition at_index :: "'a list \<Rightarrow> nat \<Rightarrow> 'a option" where
  "at_index xs i = (if i < length xs then Some (xs ! i) else None)"

text \<open>Decimal rendering of a non-negative integer in a template literal.\<close>

fun digits :: "nat \<Rightarrow> string" where
  "digits n = (if n < 10 then [''0123456789'' ! n]
               else digits (n div 10) @ [''0123456789'' ! (n mod 10)])"

declare digits.simps [simp del]

text \<open>
  The values \<^verbatim>\<open>JSON.parse\<close> produces. The parser itself belongs to the platform and is a
  parameter \<open>parse\<close> of the functions that call it: \<open>Inr v\<close> is the parsed value, \<open>Inl e\<close> is
  the thrown error as \<^verbatim>\<open>String(error)\<close> renders it. Objects are association lists in
  which a key occurs once.
\<close>

datatype json =
    JNull
  | JBool bool
  | JNum rat
  | JStr string
  | JArr "json list"
  | JObj "(string \<times> json) list"

type_synonym parser = "string \<Rightarrow> string + json"

text \<open>
  \<open>v.key\<close> for a value that is not \<open>null\<close>, for the keys the program reads
  (\<open>dependencies\<close>, \<open>devDependencies\<close> and package names): only an object has them;
  \<open>None\<close> is \<open>undefined\<close>.
\<close>

fun get_prop :: "json \<Rightarrow> string \<Rightarrow> json option" where
  "get_prop (JObj kvs) k = map_of kvs k"
| "get_prop _ k = None"

text \<open>\<open>v?.key\<close> where \<open>v\<close> may be \<open>undefined\<close> or \<open>null\<close>.\<close>

fun opt_prop :: "json option \<Rightarrow> string \<Rightarrow> json option" where
  "opt_prop None k = None"
| "opt_prop (Some JNull) k = None"
| "opt_prop (Some v) k = get_prop v k"

fun truthy :: "json option \<Rightarrow> bool" where
  "truthy None = False"
| "truthy (Some JNull) = False"
| "truthy (Some (JBool b)) = b"
| "truthy (Some (JNum n)) = (n \<noteq> 0)"
| "truthy (Some (JStr s)) = (s \<noteq> [])"
| "truthy (Some (JArr xs)) = True"
| "truthy (Some (JObj kvs)) = True"

text \<open>Number of UTF-16 code units of a string given by its UTF-8 bytes.\<close>

definition utf16_units :: "string \<Rightarrow> nat" where
  "utf16_units s =
     length (filter (\<lambda>c. \<not> (128 \<le> (of_char c :: nat) \<and> (of_char c :: nat) < 192)) s)
     + length (filter (\<lambda>c. 240 \<le> (of_char c :: nat)) s)"

text \<open>The own enumerable keys an object spread \<open>{...v}\<close> copies.\<close>

fun spread_keys :: "json option \<Rightarrow> string list" where
  "spread_keys (Some (JObj kvs)) = map fst kvs"
| "spread_keys (Some (JArr xs)) = map digits [0..<length xs]"
| "spread_keys (Some (JStr s)) = map digits [0..<utf16_units s]"
| "spread_keys _ = []"

section \<open>BuildRunner\<close>

record BuildConfig =
  projectId :: string
  buildCommand :: "string option"
  installCommand :: "string option"
  outputDir :: "string option"

datatype status = Pending | Installing | Building | Success | Failed

record BuildStatus =
  b_id :: string
  b_projectId :: string
  b_status :: status
  b_logs :: "string list"
  b_previewUrl :: "string option"
  b_startedAt :: nat
  b_completedAt :: "nat option"
  b_error :: "string option"

record SourceFile =
  path :: string
  content :: string

text \<open>
  \<open>ts\<close> stands for \<^verbatim>\<open>new Date().toISOString()\<close> and \<open>now\<close> for \<^verbatim>\<open>Date.now()\<close>; the clock
  reads of one synchronous stretch of code get the same instant.
\<close>

definition log_line :: "string \<Rightarrow> string \<Rightarrow> string" where
  "log_line ts msg = ''['' @ ts @ ''] '' @ msg"

definition push_log :: "string \<Rightarrow> string \<Rightarrow> BuildStatus \<Rightarrow> BuildStatus" where
  "push_log ts msg build = build\<lparr>b_logs := b_logs build @ [log_line ts msg]\<rparr>"


text \<open>\<open>Map<string, string>\<close>: an association list in insertion order; \<open>set\<close> on a present
  key replaces the value in place.\<close>

type_synonym builtFiles = "(string \<times> string) list"

text \<open>
  \<open>executeBuild\<close> is an async function. It gives up control at \<open>await getProjectFiles\<close>
  and, when there is something to upload, inside \<open>await deployPreview\<close>; a task is the
  continuation waiting at one of the two.
\<close>

datatype task =
    AwaitFiles BuildConfig
  | AwaitDeploy BuildConfig builtFiles

record Runner =
  builds :: "string \<rightharpoonup> BuildStatus"
  tasks :: "string \<rightharpoonup> task"
  r_FILES :: "string \<rightharpoonup> string"

datatype runner_response =
    BuildJson BuildStatus
  | BuildNotFound

subsection \<open>detectProjectType\<close>

definition dependency :: "json \<Rightarrow> string \<Rightarrow> bool" where
  "dependency pkg k = truthy (opt_prop (get_prop pkg ''dependencies'') k)"

definition devDependency :: "json \<Rightarrow> string \<Rightarrow> bool" where
  "devDependency pkg k = truthy (opt_prop (get_prop pkg ''devDependencies'') k)"

definition detectProjectType :: "parser \<Rightarrow> SourceFile list \<Rightarrow> string" where
  "detectProjectType parse files =
     (let fallback = (if list_ex (\<lambda>f. path f = ''index.html'') files
                      then ''static'' else ''unknown'')
      in case find (\<lambda>f. path f = ''package.json'') files of
           None \<Rightarrow> fallback
         | Some packageJson \<Rightarrow>
             (case parse (content packageJson) of
                Inl e \<Rightarrow> fallback
              | Inr pkg \<Rightarrow>
                  if pkg = JNull then fallback
                  else if dependency pkg ''react'' \<or> devDependency pkg ''react'' then
                    (if dependency pkg ''next'' \<or> devDependency pkg ''next'' then ''nextjs''
                     else if dependency pkg ''vite'' \<or> devDependency pkg ''vite''
                       then ''vite-react''
                     else ''react'')
                  else if dependency pkg ''vue'' \<or> devDependency pkg ''vue'' then ''vue''
                  else if dependency pkg ''svelte'' \<or> devDependency pkg ''svelte''
                    then ''svelte''
                  else if dependency pkg ''express'' then ''express''
                  else fallback))"

subsection \<open>installDependencies\<close>

text \<open>What \<open>pkg.dependencies\<close> throws when \<open>pkg\<close> is \<open>null\<close>, rendered as a string.\<close>

definition null_property_error :: string where
  "null_property_error =
     ''TypeError: Cannot read properties of null (reading '' @ [CHR 0x27] @ ''dependencies''
       @ [CHR 0x27] @ '')''"

text \<open>\<open>Inl\<close> is the message of the thrown \<open>Error\<close>; nothing is logged before a throw.\<close>

definition installDependencies ::
  "parser \<Rightarrow> string \<Rightarrow> string \<Rightarrow> BuildStatus \<Rightarrow> string + BuildStatus" where
  "installDependencies parse ts packageJsonContent build =
     (case parse packageJsonContent of
        Inl e \<Rightarrow> Inl (''Failed to parse package.json: '' @ e)
      | Inr pkg \<Rightarrow>
          if pkg = JNull then Inl (''Failed to parse package.json: '' @ null_property_error)
          else
            let dependencies = remdups (spread_keys (get_prop pkg ''dependencies'')
                                        @ spread_keys (get_prop pkg ''devDependencies''))
            in Inr (push_log ts ''Using bundler for dependency resolution''
                     (push_log ts (''Dependencies to install: '' @ digits (length dependencies))
                        build)))"

subsection \<open>buildProject\<close>

definition createHTMLWrapper :: "SourceFile list \<Rightarrow> string \<Rightarrow> string" where
  "createHTMLWrapper files entryPath =
     (case find (\<lambda>f. path f = ''index.html'') files of
        Some indexHtml \<Rightarrow> content indexHtml
      | None \<Rightarrow>
          ''<!DOCTYPE html>'' @ [CHR 0x0A]
          @ ''<html lang='' @ [CHR 0x22] @ ''en'' @ [CHR 0x22] @ ''>'' @ [CHR 0x0A]
          @ ''  <head>'' @ [CHR 0x0A]
          @ ''    <meta charset='' @ [CHR 0x22] @ ''UTF-8'' @ [CHR 0x22] @ '' />'' @ [CHR 0x0A]
          @ ''    <meta name='' @ [CHR 0x22] @ ''viewport'' @ [CHR 0x22] @ '' content=''
          @ [CHR 0x22] @ ''width=device-width, initial-scale=1.0'' @ [CHR 0x22] @ '' />''
          @ [CHR 0x0A]
          @ ''    <title>Preview</title>'' @ [CHR 0x0A]
          @ ''    <script type='' @ [CHR 0x22] @ ''module'' @ [CHR 0x22] @ ''>'' @ [CHR 0x0A]
          @ ''      import '' @ [CHR 0x22] @ entryPath @ [CHR 0x22] @ '';'' @ [CHR 0x0A]
          @ ''    </script>'' @ [CHR 0x0A]
          @ ''  </head>'' @ [CHR 0x0A]
          @ ''  <body>'' @ [CHR 0x0A]
          @ ''    <div id='' @ [CHR 0x22] @ ''root'' @ [CHR 0x22] @ ''></div>'' @ [CHR 0x0A]
          @ ''  </body>'' @ [CHR 0x0A]
          @ ''</html>'')"

text \<open>The loop \<open>for (const file of files) builtFiles.set(file.path, file.content)\<close>.\<close>

definition copy_files :: "SourceFile list \<Rightarrow> builtFiles \<Rightarrow> builtFiles" where
  "copy_files files builtFiles =
     fold (\<lambda>file m. AList.update (path file) (content file) m) files builtFiles"

definition is_entry :: "SourceFile \<Rightarrow> bool" where
  "is_entry f = (path f = ''src/main.tsx'' \<or> path f = ''src/main.jsx''
                 \<or> path f = ''src/index.tsx'' \<or> path f = ''src/index.jsx'')"

text \<open>
  Returns the built files or the message of the thrown \<open>Error\<close>, with the build record as
  the call leaves it (the React branch logs before it looks for the entry file). In the
  source both branches of the extension test in the copying loop store the file unchanged.
\<close>

definition buildProject ::
  "string \<Rightarrow> SourceFile list \<Rightarrow> string \<Rightarrow> BuildConfig \<Rightarrow> BuildStatus
   \<Rightarrow> (string + builtFiles) \<times> BuildStatus" where
  "buildProject ts files projectType config build =
     (if projectType = ''static'' then (Inr (copy_files files []), build)
      else if projectType = ''vite-react'' \<or> projectType = ''react'' then
        (let build1 = push_log ts ''Building React application...'' build
         in case find is_entry files of
              None \<Rightarrow> (Inl ''No entry file found (main.tsx, index.tsx, etc.)'', build1)
            | Some entryFile \<Rightarrow>
                (Inr (copy_files files
                       (AList.update ''index.html'' (createHTMLWrapper files (path entryFile))
                          [])),
                 build1))
      else (Inr [], build))"

subsection \<open>deployPreview\<close>

definition put_all :: "string \<Rightarrow> builtFiles \<Rightarrow> (string \<rightharpoonup> string) \<Rightarrow> (string \<rightharpoonup> string)" where
  "put_all previewPrefix builtFiles store =
     fold (\<lambda>(p, c) st. st(previewPrefix @ p \<mapsto> c)) builtFiles store"

text \<open>
  The uploads go to the content store, which may reject one: \<open>fault = Some (k, msg)\<close> says
  that the put after \<open>k\<close> successful ones throws an \<open>Error\<close> with message \<open>msg\<close>.
  The content type attached to each upload is not part of the model.
\<close>

definition deployPreview ::
  "(nat \<times> string) option \<Rightarrow> string \<Rightarrow> builtFiles \<Rightarrow> string \<Rightarrow> (string \<rightharpoonup> string)
   \<Rightarrow> (string + string) \<times> (string \<rightharpoonup> string)" where
  "deployPreview fault buildId builtFiles projId store =
     (let previewPrefix = ''previews/'' @ projId @ ''/'' @ buildId @ ''/'';
          url = ''/preview/'' @ projId @ ''/'' @ buildId @ ''/''
      in case fault of
           None \<Rightarrow> (Inr url, put_all previewPrefix builtFiles store)
         | Some (k, msg) \<Rightarrow>
             if k < length builtFiles
             then (Inl msg, put_all previewPrefix (take k builtFiles) store)
             else (Inr url, put_all previewPrefix builtFiles store))"

subsection \<open>executeBuild\<close>

text \<open>The \<open>catch\<close> block of \<open>executeBuild\<close>; every value thrown in the model is an
  \<open>Error\<close> and \<open>msg\<close> is its message.\<close>

definition build_failed :: "nat \<Rightarrow> string \<Rightarrow> string \<Rightarrow> BuildStatus \<Rightarrow> BuildStatus" where
  "build_failed now ts msg build =
     push_log ts (''ERROR: '' @ msg)
       (build\<lparr>b_status := Failed, b_error := Some msg, b_completedAt := Some now\<rparr>)"

text \<open>The last statements of the \<open>try\<close> block.\<close>

definition build_succeeded :: "nat \<Rightarrow> string \<Rightarrow> string \<Rightarrow> BuildStatus \<Rightarrow> BuildStatus" where
  "build_succeeded now ts previewUrl build =
     push_log ts (''Preview URL: '' @ previewUrl)
       (push_log ts ''Build completed successfully!''
          (build\<lparr>b_status := Success, b_previewUrl := Some previewUrl,
                 b_completedAt := Some now\<rparr>))"

text \<open>From the call up to \<open>await this.getProjectFiles(...)\<close>.\<close>

definition executeBuild_begin :: "string \<Rightarrow> string \<Rightarrow> BuildConfig \<Rightarrow> Runner \<Rightarrow> Runner" where
  "executeBuild_begin ts buildId config s =
     (case builds s buildId of
        None \<Rightarrow> s
      | Some build \<Rightarrow>
          s\<lparr>builds := (builds s)(buildId \<mapsto>
                 push_log ts (''Starting build for project '' @ projectId config)
                   (build\<lparr>b_status := Installing\<rparr>)),
            tasks := (tasks s)(buildId \<mapsto> AwaitFiles config)\<rparr>)"

text \<open>
  The install step of \<open>executeBuild\<close>, run when some file has path \<open>package.json\<close>:
  the message of the \<open>Error\<close> it throws, if any, and the build record as it leaves it.
\<close>

definition install_step ::
  "parser \<Rightarrow> string \<Rightarrow> SourceFile list \<Rightarrow> BuildStatus \<Rightarrow> string option \<times> BuildStatus" where
  "install_step parse ts files build =
     (if list_ex (\<lambda>f. path f = ''package.json'') files then
        (let build1 = push_log ts ''Installing dependencies...'' build
         in case find (\<lambda>f. path f = ''package.json'') files of
              Some packageJson \<Rightarrow>
                (case installDependencies parse ts (content packageJson) build1 of
                   Inl msg \<Rightarrow> (Some msg, build1)
                 | Inr build2 \<Rightarrow> (None, build2))
            | None \<Rightarrow> (None, build1))
      else (None, build))"

text \<open>
  From the return of \<open>getProjectFiles\<close> (\<open>Inr files\<close>, or \<open>Inl msg\<close> when it throws) up to
  the first upload of \<open>deployPreview\<close>, or to the end when nothing is uploaded or a step
  throws.
\<close>

definition executeBuild_files ::
  "parser \<Rightarrow> nat \<Rightarrow> string \<Rightarrow> string \<Rightarrow> string + SourceFile list \<Rightarrow> Runner \<Rightarrow> Runner" where
  "executeBuild_files parse now ts buildId result s =
     (case (tasks s buildId, builds s buildId) of
        (Some (AwaitFiles config), Some build) \<Rightarrow>
          (let finish = (\<lambda>b. s\<lparr>builds := (builds s)(buildId \<mapsto> b),
                                tasks := (tasks s)(buildId := None)\<rparr>)
           in case result of
                Inl msg \<Rightarrow> finish (build_failed now ts msg build)
              | Inr files \<Rightarrow>
                  (let build1 = push_log ts (''Found '' @ digits (length files) @ '' files'') build;
                       projectType = detectProjectType parse files;
                       build2 = push_log ts (''Detected project type: '' @ projectType) build1
                   in case install_step parse ts files build2 of
                        (Some msg, build3) \<Rightarrow> finish (build_failed now ts msg build3)
                      | (None, build3) \<Rightarrow>
                          (let build4 = push_log ts ''Building project...''
                                          (build3\<lparr>b_status := Building\<rparr>)
                           in case buildProject ts files projectType config build4 of
                                (Inl msg, build5) \<Rightarrow> finish (build_failed now ts msg build5)
                              | (Inr builtFiles, build5) \<Rightarrow>
                                  if builtFiles = [] then
                                    (case deployPreview None buildId builtFiles
                                            (projectId config) (r_FILES s) of
                                       (Inl msg, store) \<Rightarrow>
                                         finish (build_failed now ts msg build5)
                                     | (Inr previewUrl, store) \<Rightarrow>
                                         finish (build_succeeded now ts previewUrl build5))
                                  else
                                    s\<lparr>builds := (builds s)(buildId \<mapsto> build5),
                                      tasks := (tasks s)(buildId \<mapsto>
                                                 AwaitDeploy config builtFiles)\<rparr>)))
      | _ \<Rightarrow> s)"

text \<open>From the end of the uploads to the end of \<open>executeBuild\<close>.\<close>

definition executeBuild_deployed ::
  "nat \<Rightarrow> string \<Rightarrow> string \<Rightarrow> (nat \<times> string) option \<Rightarrow> Runner \<Rightarrow> Runner" where
  "executeBuild_deployed now ts buildId fault s =
     (case (tasks s buildId, builds s buildId) of
        (Some (AwaitDeploy config builtFiles), Some build) \<Rightarrow>
          (case deployPreview fault buildId builtFiles (projectId config) (r_FILES s) of
             (Inl msg, store) \<Rightarrow>
               s\<lparr>builds := (builds s)(buildId \<mapsto> build_failed now ts msg build),
                 tasks := (tasks s)(buildId := None), r_FILES := store\<rparr>
           | (Inr previewUrl, store) \<Rightarrow>
               s\<lparr>builds := (builds s)(buildId \<mapsto> build_succeeded now ts previewUrl build),
                 tasks := (tasks s)(buildId := None), r_FILES := store\<rparr>)
      | _ \<Rightarrow> s)"

subsection \<open>startBuild, getBuildStatus, cancelBuild\<close>

text \<open>
  \<open>buildId\<close> is the value of \<open>crypto.randomUUID()\<close>. The call of \<open>executeBuild\<close> inside
  \<open>waitUntil\<close> runs up to its first \<open>await\<close> before the response is built from the record.
\<close>

definition startBuild ::
  "string \<Rightarrow> nat \<Rightarrow> string \<Rightarrow> BuildConfig \<Rightarrow> Runner \<Rightarrow> runner_response \<times> Runner" where
  "startBuild buildId now ts config s =
     (let build = \<lparr>b_id = buildId, b_projectId = projectId config, b_status = Pending,
                   b_logs = [], b_previewUrl = None, b_startedAt = now,
                   b_completedAt = None, b_error = None\<rparr>;
          s1 = executeBuild_begin ts buildId config
                 (s\<lparr>builds := (builds s)(buildId \<mapsto> build)\<rparr>)
      in (case builds s1 buildId of Some b \<Rightarrow> BuildJson b | None \<Rightarrow> BuildNotFound, s1))"

definition getBuildStatus :: "string \<Rightarrow> Runner \<Rightarrow> runner_response" where
  "getBuildStatus buildId s =
     (case builds s buildId of None \<Rightarrow> BuildNotFound | Some build \<Rightarrow> BuildJson build)"

definition cancelBuild :: "nat \<Rightarrow> string \<Rightarrow> string \<Rightarrow> Runner \<Rightarrow> runner_response \<times> Runner" where
  "cancelBuild now ts buildId s =
     (case builds s buildId of
        None \<Rightarrow> (BuildNotFound, s)
      | Some build \<Rightarrow>
          if b_status build = Pending \<or> b_status build = Installing
             \<or> b_status build = Building
          then
            (let build1 = push_log ts ''Build cancelled''
                            (build\<lparr>b_status := Failed, b_error := Some ''Build cancelled by user'',
                                   b_completedAt := Some now\<rparr>)
             in (BuildJson build1, s\<lparr>builds := (builds s)(buildId \<mapsto> build1)\<rparr>))
          else (BuildJson build, s))"

subsection \<open>Requests and background continuations in the order they run\<close>

datatype event =
    StartBuild string nat string BuildConfig
  | FilesFetched string nat string "string + SourceFile list"
  | Deployed string nat string "(nat \<times> string) option"
  | CancelBuild string nat string

fun step :: "parser \<Rightarrow> event \<Rightarrow> Runner \<Rightarrow> Runner" where
  "step parse (StartBuild buildId now ts config) s = snd (startBuild buildId now ts config s)"
| "step parse (FilesFetched buildId now ts result) s =
     executeBuild_files parse now ts buildId result s"
| "step parse (Deployed buildId now ts fault) s = executeBuild_deployed now ts buildId fault s"
| "step parse (CancelBuild buildId now ts) s = snd (cancelBuild now ts buildId s)"

definition run :: "parser \<Rightarrow> event list \<Rightarrow> Runner \<Rightarrow> Runner" where
  "run parse events s = fold (step parse) events s"

fun is_cancel :: "event \<Rightarrow> bool" where
  "is_cancel (CancelBuild buildId now ts) = True"
| "is_cancel _ = False"

definition no_builds :: Runner where
  "no_builds = \<lparr>builds = Map.empty, tasks = Map.empty, r_FILES = Map.empty\<rparr>"

definition status_of :: "Runner \<Rightarrow> string \<Rightarrow> status option" where
  "status_of s buildId = map_option b_status (builds s buildId)"

definition error_of :: "Runner \<Rightarrow> string \<Rightarrow> string option" where
  "error_of s buildId = (case builds s buildId of None \<Rightarrow> None | Some b \<Rightarrow> b_error b)"


section \<open>ProjectManager\<close>

record Project =
  p_id :: string
  p_name :: string
  p_description :: "string option"
  p_user_id :: string
  p_created_at :: nat
  p_updated_at :: nat

text \<open>A row of the table \<open>files\<close>. The column \<open>type\<close> is text: \<open>file\<close> or \<open>directory\<close>.\<close>

record FileNode =
  f_id :: string
  f_project_id :: string
  f_path :: string
  f_name :: string
  f_type :: string
  f_parent_path :: "string option"
  f_size :: int
  f_created_at :: nat
  f_updated_at :: nat

text \<open>The JSON body of a create-file request, read as a \<open>FileNode\<close>: the fields
  \<open>createFile\<close> uses; \<open>None\<close> is a field left out.\<close>

record FileData =
  d_path :: string
  d_name :: string
  d_type :: string
  d_parent_path :: "string option"
  d_size :: "int option"
  d_content :: "string option"

text \<open>
  The two tables of the SQLite storage and the R2 bucket \<open>env.FILES\<close>. The bucket is a map
  from keys to text: \<open>put\<close> and \<open>delete\<close> always succeed and \<open>get\<close> returns the text that
  was put.
\<close>

record Manager =
  m_projects :: "Project list"
  m_files :: "FileNode list"
  m_FILES :: "string \<rightharpoonup> string"

datatype json_body =
    ProjectsJson "Project list"
  | ProjectJson Project
  | FilesJson "FileNode list"
  | FileJson FileNode
  | FileContentJson FileNode string
  | ContentJson string
  | SuccessJson
  | ErrorJson string

datatype response =
    Response nat json_body
  | TextResponse nat string

subsection \<open>SQL\<close>

text \<open>\<open>x || d\<close> for an optional string and an optional number.\<close>

definition or_null :: "string option \<Rightarrow> string option" where
  "or_null x = (case x of None \<Rightarrow> None | Some v \<Rightarrow> if v = [] then None else Some v)"

definition or_empty :: "string option \<Rightarrow> string" where
  "or_empty x = (case x of None \<Rightarrow> [] | Some v \<Rightarrow> v)"

definition or_zero :: "int option \<Rightarrow> int" where
  "or_zero x = (case x of None \<Rightarrow> 0 | Some n \<Rightarrow> if n = 0 then 0 else n)"

text \<open>The \<open>BINARY\<close> collation of a text column: bytewise, a proper prefix first.\<close>

fun bin_less :: "string \<Rightarrow> string \<Rightarrow> bool" where
  "bin_less [] [] = False"
| "bin_less [] (d # ds) = True"
| "bin_less (c # cs) [] = False"
| "bin_less (c # cs) (d # ds) =
     ((of_char c :: nat) < of_char d \<or> (c = d \<and> bin_less cs ds))"

text \<open>\<open>ORDER BY\<close>: rows sorted by a comparison, rows that compare equal in table order.\<close>

fun insert_by :: "('a \<Rightarrow> 'a \<Rightarrow> bool) \<Rightarrow> 'a \<Rightarrow> 'a list \<Rightarrow> 'a list" where
  "insert_by le x [] = [x]"
| "insert_by le x (y # ys) = (if le x y then x # y # ys else y # insert_by le x ys)"

definition order_by :: "('a \<Rightarrow> 'a \<Rightarrow> bool) \<Rightarrow> 'a list \<Rightarrow> 'a list" where
  "order_by le rows = foldr (insert_by le) rows []"

text \<open>\<open>ORDER BY type DESC, name ASC\<close>: \<open>a\<close> may come before \<open>b\<close>.\<close>

definition type_desc_name_asc :: "FileNode \<Rightarrow> FileNode \<Rightarrow> bool" where
  "type_desc_name_asc a b =
     (bin_less (f_type b) (f_type a)
      \<or> (f_type a = f_type b \<and> \<not> bin_less (f_name b) (f_name a)))"

text \<open>\<open>ORDER BY updated_at DESC\<close>.\<close>

definition updated_at_desc :: "Project \<Rightarrow> Project \<Rightarrow> bool" where
  "updated_at_desc a b = (p_updated_at b \<le> p_updated_at a)"

text \<open>\<open>SELECT * FROM files WHERE project_id = ? AND path = ?\<close>, first row.\<close>

definition select_file :: "string \<Rightarrow> string \<Rightarrow> Manager \<Rightarrow> FileNode option" where
  "select_file projId filePath s =
     find (\<lambda>f. f_project_id f = projId \<and> f_path f = filePath) (m_files s)"

text \<open>\<open>SELECT * FROM files WHERE id = ?\<close>, first row.\<close>

definition select_file_by_id :: "string \<Rightarrow> Manager \<Rightarrow> FileNode option" where
  "select_file_by_id fid s = find (\<lambda>f. f_id f = fid) (m_files s)"

text \<open>\<open>UPDATE projects SET updated_at = ? WHERE id = ?\<close>.\<close>

definition touch_project :: "nat \<Rightarrow> string \<Rightarrow> Manager \<Rightarrow> Manager" where
  "touch_project now projId s =
     s\<lparr>m_projects := map (\<lambda>p. if p_id p = projId then p\<lparr>p_updated_at := now\<rparr> else p)
                      (m_projects s)\<rparr>"

text \<open>
  \<open>INSERT INTO files\<close>: the primary key \<open>id\<close> and \<open>UNIQUE(project_id, path)\<close> are checked;
  \<open>Inl\<close> is the message of the error thrown.
\<close>

definition insert_file :: "FileNode \<Rightarrow> Manager \<Rightarrow> string + Manager" where
  "insert_file row s =
     (if list_ex (\<lambda>f. f_id f = f_id row) (m_files s)
      then Inl ''UNIQUE constraint failed: files.id''
      else if list_ex (\<lambda>f. f_project_id f = f_project_id row \<and> f_path f = f_path row) (m_files s)
      then Inl ''UNIQUE constraint failed: files.project_id, files.path''
      else Inr (s\<lparr>m_files := m_files s @ [row]\<rparr>))"

definition insert_project :: "Project \<Rightarrow> Manager \<Rightarrow> string + Manager" where
  "insert_project row s =
     (if list_ex (\<lambda>p. p_id p = p_id row) (m_projects s)
      then Inl ''UNIQUE constraint failed: projects.id''
      else Inr (s\<lparr>m_projects := m_projects s @ [row]\<rparr>))"

subsection \<open>Handlers\<close>

text \<open>In the handlers \<open>newId\<close> is the value of \<open>crypto.randomUUID()\<close> and \<open>now\<close> that of
  \<open>Date.now()\<close>. A handler that can throw returns \<open>Inl\<close> of the error message.\<close>

definition getProjects :: "string \<Rightarrow> Manager \<Rightarrow> response" where
  "getProjects userId s =
     Response 200 (ProjectsJson
       (order_by updated_at_desc (filter (\<lambda>p. p_user_id p = userId) (m_projects s))))"

definition createProject ::
  "string \<Rightarrow> nat \<Rightarrow> string \<Rightarrow> string option \<Rightarrow> string \<Rightarrow> Manager
   \<Rightarrow> (string + response) \<times> Manager" where
  "createProject newId now name description userId s =
     (case insert_project \<lparr>p_id = newId, p_name = name, p_description = or_null description,
                           p_user_id = userId, p_created_at = now, p_updated_at = now\<rparr> s of
        Inl msg \<Rightarrow> (Inl msg, s)
      | Inr s1 \<Rightarrow>
          (case find (\<lambda>p. p_id p = newId) (m_projects s1) of
             None \<Rightarrow> (Inr (TextResponse 404 ''Project not found''), s1)
           | Some project \<Rightarrow> (Inr (Response 200 (ProjectJson project)), s1)))"

definition getProject :: "string \<Rightarrow> Manager \<Rightarrow> response" where
  "getProject projId s =
     (case find (\<lambda>p. p_id p = projId) (m_projects s) of
        None \<Rightarrow> TextResponse 404 ''Project not found''
      | Some project \<Rightarrow> Response 200 (ProjectJson project))"

definition getFileTree :: "string \<Rightarrow> Manager \<Rightarrow> response" where
  "getFileTree projId s =
     Response 200 (FilesJson
       (order_by type_desc_name_asc (filter (\<lambda>f. f_project_id f = projId) (m_files s))))"

definition getFile :: "string \<Rightarrow> string \<Rightarrow> Manager \<Rightarrow> response" where
  "getFile projId filePath s =
     (case select_file projId filePath s of
        None \<Rightarrow> TextResponse 404 ''File not found''
      | Some file \<Rightarrow>
          (case m_FILES s (projId @ ''/'' @ filePath) of
             None \<Rightarrow> TextResponse 404 ''File content not found''
           | Some txt \<Rightarrow> Response 200 (FileContentJson file txt)))"

definition createFile ::
  "string \<Rightarrow> nat \<Rightarrow> string \<Rightarrow> FileData \<Rightarrow> Manager \<Rightarrow> (string + response) \<times> Manager" where
  "createFile newId now projId data s =
     (case insert_file \<lparr>f_id = newId, f_project_id = projId, f_path = d_path data,
                        f_name = d_name data, f_type = d_type data,
                        f_parent_path = or_null (d_parent_path data),
                        f_size = or_zero (d_size data),
                        f_created_at = now, f_updated_at = now\<rparr> s of
        Inl msg \<Rightarrow> (Inl msg, s)
      | Inr s1 \<Rightarrow>
          (let s2 = (if d_type data = ''file''
                     then s1\<lparr>m_FILES := (m_FILES s1)(projId @ ''/'' @ d_path data \<mapsto>
                                          or_empty (d_content data))\<rparr>
                     else s1);
               s3 = touch_project now projId s2
           in case select_file_by_id newId s3 of
                None \<Rightarrow> (Inr (TextResponse 500 ''File not found after creation''), s3)
              | Some file \<Rightarrow> (Inr (Response 200 (FileJson file)), s3)))"

definition updateFile :: "nat \<Rightarrow> string \<Rightarrow> string \<Rightarrow> string \<Rightarrow> Manager \<Rightarrow> response \<times> Manager" where
  "updateFile now projId filePath newContent s =
     (case select_file projId filePath s of
        None \<Rightarrow> (TextResponse 404 ''File not found'', s)
      | Some file \<Rightarrow>
          (let s1 = s\<lparr>m_FILES := (m_FILES s)(projId @ ''/'' @ filePath \<mapsto> newContent)\<rparr>;
               size = int (byteLength newContent);
               s2 = s1\<lparr>m_files := map (\<lambda>f. if f_id f = f_id file
                                            then f\<lparr>f_size := size, f_updated_at := now\<rparr>
                                            else f) (m_files s1)\<rparr>;
               s3 = touch_project now projId s2
           in case select_file_by_id (f_id file) s3 of
                None \<Rightarrow> (Response 200 (ContentJson newContent), s3)
              | Some updatedFile \<Rightarrow> (Response 200 (FileContentJson updatedFile newContent), s3)))"

definition deleteFile :: "nat \<Rightarrow> string \<Rightarrow> string \<Rightarrow> Manager \<Rightarrow> response \<times> Manager" where
  "deleteFile now projId filePath s =
     (case select_file projId filePath s of
        None \<Rightarrow> (TextResponse 404 ''File not found'', s)
      | Some file \<Rightarrow>
          (let s1 = s\<lparr>m_FILES := (m_FILES s)(projId @ ''/'' @ filePath := None)\<rparr>;
               s2 = s1\<lparr>m_files := filter (\<lambda>f. f_id f \<noteq> f_id file) (m_files s1)\<rparr>
           in (Response 200 SuccessJson, touch_project now projId s2)))"

subsection \<open>fetch\<close>

text \<open>
  A request as \<open>fetch\<close> reads it: method, \<open>url.pathname\<close>, the header \<open>X-User-Id\<close>
  and the body as \<open>request.json()\<close> types it. \<open>NoBody\<close> is a body that is not JSON;
  \<open>OtherBody\<close> is any JSON of another shape.
\<close>

datatype request_body =
    NoBody
  | ProjectBody string "string option"
  | FileBody FileData
  | ContentBody string
  | OtherBody

record Request =
  req_method :: string
  req_pathname :: string
  req_userId :: "string option"
  req_body :: request_body

text \<open>\<open>pathname.split("/")[2]\<close>.\<close>

definition segment2 :: "string \<Rightarrow> string option" where
  "segment2 pathname = at_index (split pathname ''/'') 2"

text \<open>The \<open>catch\<close> of \<open>fetch\<close>: a thrown error becomes a 500 response.\<close>

definition caught :: "(string + response) \<times> Manager \<Rightarrow> response \<times> Manager" where
  "caught r = (case r of
                 (Inl msg, s) \<Rightarrow> (Response 500 (ErrorJson msg), s)
               | (Inr resp, s) \<Rightarrow> (resp, s))"

text \<open>
  A body that \<open>request.json()\<close> cannot give the declared type, and a project id that is
  \<open>undefined\<close> when bound in a query, are taken to throw.
\<close>

definition body_error :: string where
  "body_error = ''SyntaxError: Unexpected end of JSON input''"

definition binding_error :: string where
  "binding_error = ''TypeError: undefined binding''"

definition unauthorized :: response where
  "unauthorized = Response 401 (ErrorJson ''Unauthorized'')"

definition no_user :: "string option \<Rightarrow> bool" where
  "no_user userId = (case userId of None \<Rightarrow> True | Some u \<Rightarrow> u = [])"

text \<open>The project id and file path of a path that contains \<open>/files/\<close>.\<close>

definition file_route :: "string \<Rightarrow> (string option \<times> string option)" where
  "file_route pathname =
     (let parts = split pathname ''/files/''
      in (case at_index parts 0 of None \<Rightarrow> None | Some p0 \<Rightarrow> segment2 p0, at_index parts 1))"

definition fetch :: "string \<Rightarrow> nat \<Rightarrow> Request \<Rightarrow> Manager \<Rightarrow> response \<times> Manager" where
  "fetch newId now request s =
     (let pathname = req_pathname request; m = req_method request;
          userId = req_userId request;
          throw = (\<lambda>msg. (Response 500 (ErrorJson msg), s))
      in
      if pathname = ''/projects'' \<and> m = ''GET'' then
        (if no_user userId then (unauthorized, s)
         else (getProjects (or_empty userId) s, s))
      else if pathname = ''/projects'' \<and> m = ''POST'' then
        (if no_user userId then (unauthorized, s)
         else case req_body request of
                ProjectBody name description \<Rightarrow>
                  caught (createProject newId now name description (or_empty userId) s)
              | _ \<Rightarrow> throw body_error)
      else if startsWith pathname ''/projects/'' \<and> endsWith pathname ''/files'' \<and> m = ''GET'' then
        (case segment2 pathname of
           None \<Rightarrow> throw binding_error
         | Some projId \<Rightarrow> (getFileTree projId s, s))
      else if startsWith pathname ''/projects/'' \<and> \<not> includes_str pathname ''/files''
              \<and> m = ''GET'' then
        (case segment2 pathname of
           None \<Rightarrow> throw binding_error
         | Some projId \<Rightarrow> (getProject projId s, s))
      else if startsWith pathname ''/projects/'' \<and> includes_str pathname ''/files/''
              \<and> m = ''GET'' then
        (case file_route pathname of
           (Some projId, Some filePath) \<Rightarrow> (getFile projId filePath s, s)
         | _ \<Rightarrow> throw binding_error)
      else if startsWith pathname ''/projects/'' \<and> endsWith pathname ''/files'' \<and> m = ''POST'' then
        (case req_body request of
           FileBody data \<Rightarrow>
             (case segment2 pathname of
                None \<Rightarrow> throw binding_error
              | Some projId \<Rightarrow> caught (createFile newId now projId data s))
         | _ \<Rightarrow> throw body_error)
      else if startsWith pathname ''/projects/'' \<and> includes_str pathname ''/files/''
              \<and> m = ''PUT'' then
        (case req_body request of
           ContentBody newContent \<Rightarrow>
             (case file_route pathname of
                (Some projId, Some filePath) \<Rightarrow> updateFile now projId filePath newContent s
              | _ \<Rightarrow> throw binding_error)
         | _ \<Rightarrow> throw body_error)
      else if startsWith pathname ''/projects/'' \<and> includes_str pathname ''/files/''
              \<and> m = ''DELETE'' then
        (case file_route pathname of
           (Some projId, Some filePath) \<Rightarrow> deleteFile now projId filePath s
         | _ \<Rightarrow> throw binding_error)
      else (TextResponse 404 ''Not found'', s))"

section \<open>The file tools that call the ProjectManager\<close>

text \<open>
  \<open>moveFile\<close> and \<open>renameFile\<close> of the code tools. They work on the same bucket
  \<open>env.FILES\<close> and reach the metadata through \<open>fetch\<close> of the ProjectManager, with the
  path of the URL \<open>https://dummy/projects/<projectId>/files/<path>\<close>; the paths are taken
  to need no URL escaping. Each \<open>stub.fetch\<close> has its own clock value and the
  responses are not looked at.
\<close>

datatype tool_result =
    ToolSuccess string
  | ToolFailure string

definition move_object ::
  "nat \<Rightarrow> nat \<Rightarrow> string \<Rightarrow> string \<Rightarrow> string \<Rightarrow> string \<Rightarrow> Manager \<Rightarrow> Manager" where
  "move_object now1 now2 projId sourcePath destinationPath txt s =
     (let s1 = s\<lparr>m_FILES := (m_FILES s)(projId @ ''/'' @ destinationPath \<mapsto> txt)\<rparr>;
          s2 = s1\<lparr>m_FILES := (m_FILES s1)(projId @ ''/'' @ sourcePath := None)\<rparr>;
          s3 = snd (fetch [] now1
                      \<lparr>req_method = ''DELETE'',
                        req_pathname = ''/projects/'' @ projId @ ''/files/'' @ sourcePath,
                        req_userId = None, req_body = NoBody\<rparr> s2)
      in snd (fetch [] now2
                \<lparr>req_method = ''PUT'',
                  req_pathname = ''/projects/'' @ projId @ ''/files/'' @ destinationPath,
                  req_userId = None, req_body = ContentBody txt\<rparr> s3))"

definition moveFile ::
  "nat \<Rightarrow> nat \<Rightarrow> string \<Rightarrow> string \<Rightarrow> string \<Rightarrow> Manager \<Rightarrow> tool_result \<times> Manager" where
  "moveFile now1 now2 projId sourcePath destinationPath s =
     (if projId = [] then (ToolFailure ''No project context available'', s)
      else case m_FILES s (projId @ ''/'' @ sourcePath) of
             None \<Rightarrow> (ToolFailure ''Source file not found'', s)
           | Some txt \<Rightarrow>
               (ToolSuccess (''File moved from '' @ sourcePath @ '' to '' @ destinationPath),
                move_object now1 now2 projId sourcePath destinationPath txt s))"

fun join :: "string list \<Rightarrow> string \<Rightarrow> string" where
  "join [] sep = []"
| "join [x] sep = x"
| "join (x # y # ys) sep = x @ sep @ join (y # ys) sep"

definition renameFile ::
  "nat \<Rightarrow> nat \<Rightarrow> string \<Rightarrow> string \<Rightarrow> string \<Rightarrow> Manager \<Rightarrow> tool_result \<times> Manager" where
  "renameFile now1 now2 projId filePath newName s =
     (if projId = [] then (ToolFailure ''No project context available'', s)
      else
        let newPath = join (butlast (split filePath ''/'') @ [newName]) ''/''
        in case m_FILES s (projId @ ''/'' @ filePath) of
             None \<Rightarrow> (ToolFailure ''File not found'', s)
           | Some txt \<Rightarrow>
               (ToolSuccess (''File renamed from '' @ filePath @ '' to '' @ newPath),
                move_object now1 now2 projId filePath newPath txt s))"

section \<open>Sample inputs\<close>

definition cfg0 :: BuildConfig where
  "cfg0 = \<lparr>projectId = ''p1'', buildCommand = None, installCommand = None, outputDir = None\<rparr>"

definition build0 :: BuildStatus where
  "build0 = \<lparr>b_id = ''b1'', b_projectId = ''p1'', b_status = Building, b_logs = [],
              b_previewUrl = None, b_startedAt = 0, b_completedAt = None, b_error = None\<rparr>"

definition vue_manifest :: string where
  \<open>vue_manifest = ''{"dependencies":{"vue":"^3.0.0"}}''\<close>

definition react_manifest :: string where
  \<open>react_manifest = ''{"dependencies":{"react":"^18.0.0"}}''\<close>

text \<open>
  What \<open>JSON.parse\<close> gives on the texts of the samples below: the two manifests parse,
  the text \<open>{\<close> of \<open>broken_project\<close> makes it throw a \<open>SyntaxError\<close> (its message is left
  out). No sample passes it any other text.
\<close>

definition parse_sample :: parser where
  "parse_sample c =
     (if c = vue_manifest
      then Inr (JObj [(''dependencies'', JObj [(''vue'', JStr ''^3.0.0'')])])
      else if c = react_manifest
      then Inr (JObj [(''dependencies'', JObj [(''react'', JStr ''^18.0.0'')])])
      else Inl ''SyntaxError'')"

definition static_site :: "SourceFile list" where
  "static_site = [\<lparr>path = ''index.html'', content = ''<h1>hi</h1>''\<rparr>,
                  \<lparr>path = ''style.css'', content = ''h1 { color: red }''\<rparr>]"

definition vue_project :: "SourceFile list" where
  "vue_project = [\<lparr>path = ''package.json'', content = vue_manifest\<rparr>,
                  \<lparr>path = ''src/App.vue'', content = ''<template></template>''\<rparr>]"

definition react_project :: "SourceFile list" where
  "react_project = [\<lparr>path = ''package.json'', content = react_manifest\<rparr>,
                    \<lparr>path = ''src/App.tsx'', content = ''export {}''\<rparr>]"

definition notes_project :: "SourceFile list" where
  "notes_project = [\<lparr>path = ''notes.txt'', content = ''todo''\<rparr>]"

definition broken_project :: "SourceFile list" where
  "broken_project = [\<lparr>path = ''package.json'', content = ''{''\<rparr>,
                     \<lparr>path = ''index.html'', content = ''<h1>hi</h1>''\<rparr>]"

definition no_files :: Manager where
  "no_files = \<lparr>m_projects = [], m_files = [], m_FILES = Map.empty\<rparr>"

definition src_dir :: FileData where
  "src_dir = \<lparr>d_path = ''src'', d_name = ''src'', d_type = ''directory'',
              d_parent_path = None, d_size = Some 0, d_content = None\<rparr>"

definition index_html :: FileData where
  "index_html = \<lparr>d_path = ''index.html'', d_name = ''index.html'', d_type = ''file'',
                 d_parent_path = None, d_size = None, d_content = Some ''<h1>hi</h1>''\<rparr>"

definition a_txt :: FileData where
  "a_txt = \<lparr>d_path = ''a.txt'', d_name = ''a.txt'', d_type = ''file'',
            d_parent_path = None, d_size = Some 1, d_content = Some ''x''\<rparr>"

definition post_file :: "string \<Rightarrow> FileData \<Rightarrow> Request" where
  "post_file projId data =
     \<lparr>req_method = ''POST'', req_pathname = ''/projects/'' @ projId @ ''/files'',
       req_userId = Some ''u1'', req_body = FileBody data\<rparr>"

definition put_content :: "string \<Rightarrow> string \<Rightarrow> Request" where
  "put_content pathname txt =
     \<lparr>req_method = ''PUT'', req_pathname = pathname,
       req_userId = Some ''u1'', req_body = ContentBody txt\<rparr>"

definition get_request :: "string \<Rightarrow> Request" where
  "get_request pathname =
     \<lparr>req_method = ''GET'', req_pathname = pathname,
       req_userId = Some ''u1'', req_body = NoBody\<rparr>"

text \<open>The request the editor sends to move a file; its body is
  \<open>{sourcePath, destinationPath}\<close>.\<close>

definition post_move :: Request where
  "post_move = \<lparr>req_method = ''POST'', req_pathname = ''/projects/p1/files/move'',
                 req_userId = Some ''u1'', req_body = OtherBody\<rparr>"

text \<open>Project \<open>p1\<close> after creating the directory \<open>src\<close>, then the file \<open>a.txt\<close>; and
  after creating the file alone.\<close>

definition only_src :: Manager where
  "only_src = snd (fetch ''f1'' 1 (post_file ''p1'' src_dir) no_files)"

definition src_and_a :: Manager where
  "src_and_a = snd (fetch ''f2'' 2 (post_file ''p1'' a_txt) only_src)"

definition only_a :: Manager where
  "only_a = snd (fetch ''f2'' 2 (post_file ''p1'' a_txt) no_files)"

section \<open>Properties of the BuildRunner\<close>

lemmas runner_defs =
  startBuild_def cancelBuild_def executeBuild_begin_def push_log_def log_line_def
  no_builds_def status_of_def error_of_def getBuildStatus_def run_def cfg0_def Let_def

lemmas exec_defs =
  executeBuild_files_def executeBuild_deployed_def detectProjectType_def install_step_def
  installDependencies_def buildProject_def deployPreview_def put_all_def build_failed_def
  build_succeeded_def copy_files_def is_entry_def dependency_def devDependency_def
  digits.simps

lemmas sample_defs =
  vue_project_def react_project_def notes_project_def broken_project_def static_site_def
  vue_manifest_def react_manifest_def parse_sample_def build0_def

subsection \<open>Starting and cancelling\<close>

lemma started_task:
  "tasks (snd (startBuild buildId now0 ts0 config s)) buildId = Some (AwaitFiles config)"
  by (simp add: startBuild_def executeBuild_begin_def Let_def)

lemma started_build:
  "builds (snd (startBuild buildId now0 ts0 config s)) buildId =
     Some \<lparr>b_id = buildId, b_projectId = projectId config, b_status = Installing,
           b_logs = [log_line ts0 (''Starting build for project '' @ projectId config)],
           b_previewUrl = None, b_startedAt = now0, b_completedAt = None, b_error = None\<rparr>"
  by (simp add: startBuild_def executeBuild_begin_def push_log_def Let_def)

lemma started_FILES: "r_FILES (snd (startBuild buildId now0 ts0 config s)) = r_FILES s"
  by (simp add: startBuild_def executeBuild_begin_def Let_def)

text \<open>\<open>cancelBuild\<close> itself leaves a build that is already terminal as it is.\<close>

lemma cancelBuild_terminal:
  assumes "builds s buildId = Some build"
    and "b_status build = Success \<or> b_status build = Failed"
  shows "cancelBuild now ts buildId s = (BuildJson build, s)"
  using assms by (auto simp: cancelBuild_def)

lemma cancel_keeps:
  "tasks (snd (cancelBuild now ts cid s)) = tasks s"
  "r_FILES (snd (cancelBuild now ts cid s)) = r_FILES s"
  "builds s buildId \<noteq> None \<Longrightarrow> builds (snd (cancelBuild now ts cid s)) buildId \<noteq> None"
  by (auto simp: cancelBuild_def Let_def split: option.splits)

lemma cancels_keep:
  assumes "list_all is_cancel cs"
  shows "tasks (run parse cs s) = tasks s \<and> r_FILES (run parse cs s) = r_FILES s
         \<and> (builds s buildId \<noteq> None \<longrightarrow> builds (run parse cs s) buildId \<noteq> None)"
  using assms
proof (induction cs arbitrary: s)
  case Nil
  then show ?case by (simp add: run_def)
next
  case (Cons ev cs)
  then obtain cid now ts where ev: "ev = CancelBuild cid now ts"
    by (cases ev) auto
  from Cons.prems have rest: "list_all is_cancel cs" by simp
  have "run parse (ev # cs) s = run parse cs (snd (cancelBuild now ts cid s))"
    by (simp add: run_def ev)
  with Cons.IH [OF rest, of "snd (cancelBuild now ts cid s)"]
    cancel_keeps(3) [of s buildId now ts cid]
  show ?case
    by (auto simp: cancel_keeps(1,2))
qed

lemma run_start_cancels:
  "run parse (StartBuild buildId now0 ts0 config # cs @ [ev]) s =
     step parse ev (run parse cs (snd (startBuild buildId now0 ts0 config s)))"
  by (simp add: run_def)

lemma awaiting_after_cancels:
  assumes "list_all is_cancel cs"
  shows "tasks (run parse cs (snd (startBuild buildId now0 ts0 config s))) buildId
           = Some (AwaitFiles config)
         \<and> builds (run parse cs (snd (startBuild buildId now0 ts0 config s))) buildId \<noteq> None
         \<and> r_FILES (run parse cs (snd (startBuild buildId now0 ts0 config s))) = r_FILES s"
  using cancels_keep [OF assms, of parse "snd (startBuild buildId now0 ts0 config s)" buildId]
  by (simp add: started_task started_build started_FILES)

lemma build_failed_fields [simp]:
  "b_status (build_failed now ts msg build) = Failed"
  "b_error (build_failed now ts msg build) = Some msg"
  "b_completedAt (build_failed now ts msg build) = Some now"
  by (simp_all add: build_failed_def push_log_def)

lemma case_no_throw:
  "fst p = None \<Longrightarrow>
     (case p of (Some msg, b) \<Rightarrow> f msg b | (None, b) \<Rightarrow> g b) = g (snd p)"
  by (cases p) auto

text \<open>
  C1. The specification says that once a build is terminal no later write changes its
  status, error, previewUrl or completedAt, in particular that a background phase finishing
  after a cancel does not overwrite the cancelled state. In the run below the build is
  cancelled while its files are being fetched: it is failed after the cancel, building
  again once the files have arrived, and ends as success with a preview URL, a new
  completion time and the error of the cancel still in the record.
\<close>

theorem cancelled_build_is_overwritten:
  "status_of (run parse_sample [StartBuild ''b1'' 0 ''t0'' cfg0, CancelBuild ''b1'' 1 ''t1'']
                no_builds) ''b1'' = Some Failed
   \<and> status_of (run parse_sample [StartBuild ''b1'' 0 ''t0'' cfg0, CancelBuild ''b1'' 1 ''t1'',
                   FilesFetched ''b1'' 2 ''t2'' (Inr static_site)] no_builds) ''b1''
       = Some Building
   \<and> getBuildStatus ''b1''
        (run parse_sample [StartBuild ''b1'' 0 ''t0'' cfg0, CancelBuild ''b1'' 1 ''t1'',
                           FilesFetched ''b1'' 2 ''t2'' (Inr static_site),
                           Deployed ''b1'' 3 ''t3'' None] no_builds) =
      BuildJson \<lparr>b_id = ''b1'', b_projectId = ''p1'', b_status = Success,
        b_logs = [''[t0] Starting build for project p1'', ''[t1] Build cancelled'',
                  ''[t2] Found 2 files'', ''[t2] Detected project type: static'',
                  ''[t2] Building project...'', ''[t3] Build completed successfully!'',
                  ''[t3] Preview URL: /preview/p1/b1/''],
        b_previewUrl = Some ''/preview/p1/b1/'', b_startedAt = 0, b_completedAt = Some 3,
        b_error = Some ''Build cancelled by user''\<rparr>"
  by (simp add: runner_defs exec_defs sample_defs)

text \<open>
  C6 as the specification states it: cancelling a non-terminal build leaves the error
  field equal to the string \<open>cancelled\<close>. The build below was just started; after
  \<open>cancelBuild\<close> its error field is a different string.
\<close>

theorem cancelBuild_error_is_not_cancelled:
  "error_of (snd (cancelBuild 1 ''t1'' ''b1'' (snd (startBuild ''b1'' 0 ''t0'' cfg0 no_builds))))
     ''b1'' \<noteq> Some ''cancelled''"
  by (simp add: runner_defs)

text \<open>
  C6, amended: for every build whose status is pending, installing or building,
  \<open>cancelBuild\<close> sets the status to failed and the error field to the string
  \<open>Build cancelled by user\<close>, sets \<open>completedAt\<close>, appends exactly one log line, returns
  that record, and the next \<open>getBuildStatus\<close> reads it.
\<close>

theorem cancelBuild_non_terminal:
  assumes "builds s buildId = Some build"
    and "b_status build = Pending \<or> b_status build = Installing \<or> b_status build = Building"
  shows "getBuildStatus buildId (snd (cancelBuild now ts buildId s)) =
           BuildJson (build\<lparr>b_status := Failed, b_error := Some ''Build cancelled by user'',
                         b_completedAt := Some now,
                         b_logs := b_logs build @ [log_line ts ''Build cancelled'']\<rparr>)
         \<and> fst (cancelBuild now ts buildId s) =
             getBuildStatus buildId (snd (cancelBuild now ts buildId s))"
  using assms by (auto simp: cancelBuild_def getBuildStatus_def push_log_def Let_def)

text \<open>C6, amended, at a build that was just started and is installing.\<close>

theorem cancelBuild_non_terminal_witness:
  "getBuildStatus ''b1''
     (snd (cancelBuild 1 ''t1'' ''b1'' (snd (startBuild ''b1'' 0 ''t0'' cfg0 no_builds)))) =
   BuildJson \<lparr>b_id = ''b1'', b_projectId = ''p1'', b_status = Failed,
              b_logs = [''[t0] Starting build for project p1'', ''[t1] Build cancelled''],
              b_previewUrl = None, b_startedAt = 0, b_completedAt = Some 1,
              b_error = Some ''Build cancelled by user''\<rparr>"
proof -
  let ?s = "snd (startBuild ''b1'' 0 ''t0'' cfg0 no_builds)"
  let ?b = "\<lparr>b_id = ''b1'', b_projectId = ''p1'', b_status = Installing,
             b_logs = [''[t0] Starting build for project p1''],
             b_previewUrl = None, b_startedAt = 0, b_completedAt = None, b_error = None\<rparr>"
  have h1: "builds ?s ''b1'' = Some ?b"
    by (simp add: runner_defs)
  have h2: "b_status ?b = Pending \<or> b_status ?b = Installing \<or> b_status ?b = Building"
    by simp
  from cancelBuild_non_terminal [OF h1 h2, of 1 "''t1''"] show ?thesis
    by (simp add: log_line_def)
qed

subsection \<open>The entry file of a React project\<close>

lemma react_installs:
  assumes "detectProjectType parse files = ''react''
           \<or> detectProjectType parse files = ''vite-react''"
  shows "fst (install_step parse ts files build) = None"
  using assms
  by (auto simp: detectProjectType_def install_step_def installDependencies_def Let_def
        list_ex_iff find_None_iff split: option.splits sum.splits if_splits)

lemma files_entry_missing:
  assumes "tasks s buildId = Some (AwaitFiles config)" and "builds s buildId \<noteq> None"
    and "detectProjectType parse files = ''react''
         \<or> detectProjectType parse files = ''vite-react''"
    and "\<not> list_ex is_entry files"
  shows "status_of (executeBuild_files parse now ts buildId (Inr files) s) buildId = Some Failed"
    and "error_of (executeBuild_files parse now ts buildId (Inr files) s) buildId
           = Some ''No entry file found (main.tsx, index.tsx, etc.)''"
    and "tasks (executeBuild_files parse now ts buildId (Inr files) s) buildId = None"
    and "r_FILES (executeBuild_files parse now ts buildId (Inr files) s) = r_FILES s"
proof -
  from assms(2) obtain build where b: "builds s buildId = Some build" by auto
  have noentry: "find is_entry files = None"
    using assms(4) by (simp add: find_None_iff list_ex_iff)
  have bp: "\<And>b. buildProject ts files (detectProjectType parse files) config b =
      (Inl ''No entry file found (main.tsx, index.tsx, etc.)'',
       push_log ts ''Building React application...'' b)"
    using assms(3) noentry by (auto simp: buildProject_def Let_def)
  note inst = case_no_throw [OF react_installs [OF assms(3)]]
  show "status_of (executeBuild_files parse now ts buildId (Inr files) s) buildId = Some Failed"
    by (simp add: executeBuild_files_def assms(1) b inst bp Let_def status_of_def)
  show "error_of (executeBuild_files parse now ts buildId (Inr files) s) buildId
           = Some ''No entry file found (main.tsx, index.tsx, etc.)''"
    by (simp add: executeBuild_files_def assms(1) b inst bp Let_def error_of_def)
  show "tasks (executeBuild_files parse now ts buildId (Inr files) s) buildId = None"
    by (simp add: executeBuild_files_def assms(1) b inst bp Let_def)
  show "r_FILES (executeBuild_files parse now ts buildId (Inr files) s) = r_FILES s"
    by (simp add: executeBuild_files_def assms(1) b inst bp Let_def)
qed

text \<open>
  C7 as the specification states it: a project of any recognised framework profile without
  one of the conventional entry files ends failed. The project below is classified
  \<open>vue\<close> and has none of the entry files; its build ends as success, with no error.
\<close>

theorem vue_without_entry_succeeds:
  "detectProjectType parse_sample vue_project = ''vue'' \<and> \<not> list_ex is_entry vue_project
   \<and> status_of (run parse_sample [StartBuild ''b1'' 0 ''t0'' cfg0,
                   FilesFetched ''b1'' 2 ''t2'' (Inr vue_project)] no_builds) ''b1''
       = Some Success
   \<and> error_of (run parse_sample [StartBuild ''b1'' 0 ''t0'' cfg0,
                  FilesFetched ''b1'' 2 ''t2'' (Inr vue_project)] no_builds) ''b1'' = None"
  by (simp add: runner_defs exec_defs sample_defs)

text \<open>
  C7, amended: for every project classified \<open>react\<close> or \<open>vite-react\<close> whose files contain
  none of \<open>src/main.tsx\<close>, \<open>src/main.jsx\<close>, \<open>src/index.tsx\<close>, \<open>src/index.jsx\<close>, the build
  started by \<open>startBuild\<close> ends, once its files have been fetched, with status failed and
  the error \<open>No entry file found (main.tsx, index.tsx, etc.)\<close>; nothing is uploaded and no
  continuation is left. Cancel requests arriving in between do not change this.
\<close>

theorem react_without_entry_fails:
  assumes "detectProjectType parse files = ''react''
           \<or> detectProjectType parse files = ''vite-react''"
    and "\<not> list_ex is_entry files"
    and "list_all is_cancel cancels"
  shows "status_of (run parse (StartBuild buildId now0 ts0 config # cancels @
                      [FilesFetched buildId now ts (Inr files)]) s) buildId = Some Failed
       \<and> error_of (run parse (StartBuild buildId now0 ts0 config # cancels @
                      [FilesFetched buildId now ts (Inr files)]) s) buildId
           = Some ''No entry file found (main.tsx, index.tsx, etc.)''
       \<and> tasks (run parse (StartBuild buildId now0 ts0 config # cancels @
                      [FilesFetched buildId now ts (Inr files)]) s) buildId = None
       \<and> r_FILES (run parse (StartBuild buildId now0 ts0 config # cancels @
                      [FilesFetched buildId now ts (Inr files)]) s) = r_FILES s"
proof -
  let ?s1 = "run parse cancels (snd (startBuild buildId now0 ts0 config s))"
  note aw = awaiting_after_cancels [OF assms(3), of parse buildId now0 ts0 config s]
  have t: "tasks ?s1 buildId = Some (AwaitFiles config)" using aw by simp
  have b: "builds ?s1 buildId \<noteq> None" using aw by simp
  have f: "r_FILES ?s1 = r_FILES s" using aw by simp
  note r = files_entry_missing [where parse = parse, OF t b assms(1,2), of now ts]
  show ?thesis
    using r f by (simp add: run_start_cancels)
qed

text \<open>C7, amended, at a React project with no entry file and one cancel request.\<close>

theorem react_without_entry_fails_witness:
  "status_of (run parse_sample (StartBuild ''b1'' 0 ''t0'' cfg0 # [CancelBuild ''b1'' 1 ''t1''] @
                [FilesFetched ''b1'' 2 ''t2'' (Inr react_project)]) no_builds) ''b1''
     = Some Failed
   \<and> error_of (run parse_sample (StartBuild ''b1'' 0 ''t0'' cfg0 # [CancelBuild ''b1'' 1 ''t1''] @
                  [FilesFetched ''b1'' 2 ''t2'' (Inr react_project)]) no_builds) ''b1''
       = Some ''No entry file found (main.tsx, index.tsx, etc.)''"
proof -
  have h1: "detectProjectType parse_sample react_project = ''react''
            \<or> detectProjectType parse_sample react_project = ''vite-react''"
    by (simp add: exec_defs sample_defs)
  have h2: "\<not> list_ex is_entry react_project"
    by (simp add: is_entry_def sample_defs)
  have h3: "list_all is_cancel [CancelBuild ''b1'' 1 ''t1'']"
    by simp
  from react_without_entry_fails [where parse = parse_sample, OF h1 h2 h3]
  show ?thesis by blast
qed

subsection \<open>The output of the build phase\<close>

lemma update_fresh:
  "k \<notin> fst ` set al \<Longrightarrow> AList.update k v al = al @ [(k, v)]"
  by (induction al) auto

lemma copy_files_distinct:
  assumes "distinct (map fst acc @ map path files)"
  shows "copy_files files acc = acc @ map (\<lambda>f. (path f, content f)) files"
  using assms
proof (induction files arbitrary: acc)
  case Nil
  then show ?case by (simp add: copy_files_def)
next
  case (Cons f files)
  from Cons.prems have fresh: "path f \<notin> fst ` set acc" by auto
  from Cons.prems have d: "distinct (map fst (acc @ [(path f, content f)]) @ map path files)"
    by auto
  have "copy_files (f # files) acc = copy_files files (acc @ [(path f, content f)])"
    by (simp add: copy_files_def update_fresh [OF fresh])
  with Cons.IH [OF d] show ?case by simp
qed

text \<open>
  C8 as the specification states it: for a project of the static or the unknown profile the
  build phase outputs the input files unchanged. The project below, one text file, is
  classified \<open>unknown\<close>; the build phase outputs nothing.
\<close>

theorem unknown_profile_builds_nothing:
  "detectProjectType parse_sample notes_project = ''unknown''
   \<and> fst (buildProject ''t2'' notes_project (detectProjectType parse_sample notes_project)
            cfg0 build0) = Inr []
   \<and> fst (buildProject ''t2'' notes_project (detectProjectType parse_sample notes_project)
            cfg0 build0) \<noteq> Inr [(''notes.txt'', ''todo'')]"
  by (simp add: exec_defs sample_defs)

text \<open>
  C8, amended: for every project classified into the static profile (its files having
  distinct paths, as the keys of the bucket do), the build phase outputs exactly the input
  files, each path with its content unchanged, in the order read, and leaves the build
  record as it was.
\<close>

theorem static_profile_copies_files:
  assumes "detectProjectType parse files = ''static''"
    and "distinct (map path files)"
  shows "buildProject ts files (detectProjectType parse files) config build
           = (Inr (map (\<lambda>f. (path f, content f)) files), build)"
  using assms copy_files_distinct [of "[]" files] by (simp add: buildProject_def)

text \<open>C8, amended, at a site of an \<open>index.html\<close> and a style sheet.\<close>

theorem static_profile_copies_files_witness:
  "buildProject ''t2'' static_site (detectProjectType parse_sample static_site) cfg0 build0
     = (Inr [(''index.html'', ''<h1>hi</h1>''), (''style.css'', ''h1 { color: red }'')], build0)"
proof -
  have h1: "detectProjectType parse_sample static_site = ''static''"
    by (simp add: exec_defs sample_defs)
  have h2: "distinct (map path static_site)"
    by (simp add: sample_defs)
  from static_profile_copies_files [OF h1 h2, of "''t2''" cfg0 build0]
  show ?thesis by (simp add: static_site_def)
qed

subsection \<open>A manifest that is not JSON\<close>

lemma files_install_throws:
  assumes "tasks s buildId = Some (AwaitFiles config)" and "builds s buildId \<noteq> None"
    and "find (\<lambda>f. path f = ''package.json'') files = Some packageJson"
    and "parse (content packageJson) = Inl e"
  shows "status_of (executeBuild_files parse now ts buildId (Inr files) s) buildId = Some Failed"
    and "error_of (executeBuild_files parse now ts buildId (Inr files) s) buildId
           = Some (''Failed to parse package.json: '' @ e)"
    and "tasks (executeBuild_files parse now ts buildId (Inr files) s) buildId = None"
    and "r_FILES (executeBuild_files parse now ts buildId (Inr files) s) = r_FILES s"
proof -
  have ex: "list_ex (\<lambda>f. path f = ''package.json'') files"
    using assms(3) by (auto simp: list_ex_iff find_Some_iff)
  have inst: "\<And>b. install_step parse ts files b =
          (Some (''Failed to parse package.json: '' @ e),
           push_log ts ''Installing dependencies...'' b)"
    using assms(3,4) ex by (simp add: install_step_def installDependencies_def Let_def)
  from assms(2) obtain build where b: "builds s buildId = Some build" by auto
  show "status_of (executeBuild_files parse now ts buildId (Inr files) s) buildId = Some Failed"
    by (simp add: executeBuild_files_def assms(1) b inst Let_def status_of_def)
  show "error_of (executeBuild_files parse now ts buildId (Inr files) s) buildId
           = Some (''Failed to parse package.json: '' @ e)"
    by (simp add: executeBuild_files_def assms(1) b inst Let_def error_of_def)
  show "tasks (executeBuild_files parse now ts buildId (Inr files) s) buildId = None"
    by (simp add: executeBuild_files_def assms(1) b inst Let_def)
  show "r_FILES (executeBuild_files parse now ts buildId (Inr files) s) = r_FILES s"
    by (simp add: executeBuild_files_def assms(1) b inst Let_def)
qed

text \<open>
  C10: for every project whose files contain one at path \<open>package.json\<close> that
  \<open>JSON.parse\<close> rejects, the build started by \<open>startBuild\<close> is installing after the start
  and, once its files have been fetched, ends with status failed and an error that begins
  \<open>Failed to parse package.json\<close>; it is never built as a static or unknown project:
  nothing is uploaded and no continuation is left. Cancel requests arriving in between do
  not change this.
\<close>

theorem invalid_manifest_fails:
  assumes "find (\<lambda>f. path f = ''package.json'') files = Some packageJson"
    and "parse (content packageJson) = Inl e"
    and "list_all is_cancel cancels"
  shows "status_of (run parse [StartBuild buildId now0 ts0 config] s) buildId = Some Installing
       \<and> status_of (run parse (StartBuild buildId now0 ts0 config # cancels @
                      [FilesFetched buildId now ts (Inr files)]) s) buildId = Some Failed
       \<and> error_of (run parse (StartBuild buildId now0 ts0 config # cancels @
                      [FilesFetched buildId now ts (Inr files)]) s) buildId
           = Some (''Failed to parse package.json: '' @ e)
       \<and> tasks (run parse (StartBuild buildId now0 ts0 config # cancels @
                      [FilesFetched buildId now ts (Inr files)]) s) buildId = None
       \<and> r_FILES (run parse (StartBuild buildId now0 ts0 config # cancels @
                      [FilesFetched buildId now ts (Inr files)]) s) = r_FILES s"
proof -
  let ?s1 = "run parse cancels (snd (startBuild buildId now0 ts0 config s))"
  note aw = awaiting_after_cancels [OF assms(3), of parse buildId now0 ts0 config s]
  have t: "tasks ?s1 buildId = Some (AwaitFiles config)" using aw by simp
  have b: "builds ?s1 buildId \<noteq> None" using aw by simp
  have f: "r_FILES ?s1 = r_FILES s" using aw by simp
  note r = files_install_throws [where parse = parse and packageJson = packageJson,
                                 OF t b assms(1,2), of now ts]
  have "status_of (run parse [StartBuild buildId now0 ts0 config] s) buildId = Some Installing"
    by (simp add: run_def status_of_def started_build)
  then show ?thesis
    using r f by (simp add: run_start_cancels)
qed

text \<open>C10 at a project whose \<open>package.json\<close> is the text \<open>{\<close>, next to an
  \<open>index.html\<close>, with no cancel request.\<close>

theorem invalid_manifest_fails_witness:
  "status_of (run parse_sample [StartBuild ''b1'' 0 ''t0'' cfg0,
                FilesFetched ''b1'' 2 ''t2'' (Inr broken_project)] no_builds) ''b1''
     = Some Failed
   \<and> error_of (run parse_sample [StartBuild ''b1'' 0 ''t0'' cfg0,
                  FilesFetched ''b1'' 2 ''t2'' (Inr broken_project)] no_builds) ''b1''
       = Some ''Failed to parse package.json: SyntaxError''"
proof -
  let ?pj = "\<lparr>path = ''package.json'', content = ''{''\<rparr>"
  have h1: "find (\<lambda>f. path f = ''package.json'') broken_project = Some ?pj"
    by (simp add: sample_defs)
  have h2: "parse_sample (content ?pj) = Inl ''SyntaxError''"
    by (simp add: sample_defs)
  have h3: "list_all is_cancel []"
    by simp
  from invalid_manifest_fails [where parse = parse_sample and packageJson = ?pj, OF h1 h2 h3,
                               of "''b1''" 0 "''t0''" cfg0 no_builds 2 "''t2''"]
  show ?thesis by simp
qed

section \<open>Properties of the ProjectManager\<close>

lemmas pm_defs =
  fetch_def createFile_def updateFile_def deleteFile_def getFile_def getFileTree_def
  insert_file_def select_file_def select_file_by_id_def touch_project_def caught_def
  segment2_def file_route_def split_def at_index_def startsWith_def endsWith_def
  or_null_def or_empty_def or_zero_def byteLength_def order_by_def type_desc_name_asc_def
  no_user_def Let_def

lemmas pm_samples =
  no_files_def src_dir_def index_html_def a_txt_def post_file_def put_content_def
  get_request_def post_move_def

lemma only_src_eq:
  "only_src = \<lparr>m_projects = [],
      m_files = [\<lparr>f_id = ''f1'', f_project_id = ''p1'', f_path = ''src'',
           f_name = ''src'', f_type = ''directory'', f_parent_path = None,
           f_size = 0, f_created_at = 1, f_updated_at = 1\<rparr>], m_FILES = Map.empty\<rparr>"
  by (simp add: only_src_def pm_defs pm_samples)

lemma only_a_eq:
  "only_a = \<lparr>m_projects = [],
      m_files = [\<lparr>f_id = ''f2'', f_project_id = ''p1'', f_path = ''a.txt'',
           f_name = ''a.txt'', f_type = ''file'', f_parent_path = None,
           f_size = 1, f_created_at = 2, f_updated_at = 2\<rparr>],
      m_FILES = [''p1/a.txt'' \<mapsto> ''x'']\<rparr>"
  by (simp add: only_a_def pm_defs pm_samples)

lemma src_and_a_eq:
  "src_and_a = \<lparr>m_projects = [],
      m_files = [\<lparr>f_id = ''f1'', f_project_id = ''p1'', f_path = ''src'',
           f_name = ''src'', f_type = ''directory'', f_parent_path = None,
           f_size = 0, f_created_at = 1, f_updated_at = 1\<rparr>,
         \<lparr>f_id = ''f2'', f_project_id = ''p1'', f_path = ''a.txt'',
           f_name = ''a.txt'', f_type = ''file'', f_parent_path = None,
           f_size = 1, f_created_at = 2, f_updated_at = 2\<rparr>],
      m_FILES = [''p1/a.txt'' \<mapsto> ''x'']\<rparr>"
  by (simp add: src_and_a_def only_src_eq pm_defs pm_samples)

subsection \<open>Content and directories\<close>

text \<open>\<open>createFile\<close> writes content only when the type is \<open>file\<close>.\<close>

lemma createFile_directory_no_content:
  assumes "d_type data \<noteq> ''file''"
  shows "m_FILES (snd (createFile newId now projId data s)) = m_FILES s"
  using assms
  by (simp add: createFile_def insert_file_def touch_project_def Let_def split: option.splits)

text \<open>\<open>updateFile\<close> at a path with no metadata row answers 404 and writes nothing.\<close>

lemma updateFile_unknown_path:
  assumes "select_file projId filePath s = None"
  shows "updateFile now projId filePath newContent s = (TextResponse 404 ''File not found'', s)"
  using assms by (simp add: updateFile_def)

text \<open>
  C2. The specification says that a directory never has a content blob under
  \<open>projectId/path\<close> and that \<open>updateFile\<close> never writes content for a path whose row is a
  directory. Project \<open>p1\<close> below holds the directory \<open>src\<close> and no blob; the update request
  for \<open>src\<close> is answered 200 and the bucket then holds \<open>x\<close> under \<open>p1/src\<close>.
\<close>

theorem updateFile_writes_directory_content:
  "map f_type (m_files only_src) = [''directory'']
   \<and> m_FILES only_src ''p1/src'' = None
   \<and> fst (fetch [] 3 (put_content ''/projects/p1/files/src'' ''x'') only_src) =
       Response 200 (FileContentJson
         \<lparr>f_id = ''f1'', f_project_id = ''p1'', f_path = ''src'', f_name = ''src'',
           f_type = ''directory'', f_parent_path = None, f_size = 1, f_created_at = 1,
           f_updated_at = 3\<rparr> ''x'')
   \<and> m_FILES (snd (fetch [] 3 (put_content ''/projects/p1/files/src'' ''x'') only_src))
        ''p1/src'' = Some ''x''"
  by (simp add: only_src_eq pm_defs pm_samples)

subsection \<open>Update, then read\<close>

lemma find_map_same:
  assumes "\<And>x. P (g x) = P x"
  shows "find P (map g xs) = map_option g (find P xs)"
  using assms by (induction xs) auto

text \<open>\<open>updateFile\<close> succeeds exactly when the path has a metadata row.\<close>

lemma updateFile_succeeds_iff:
  "(\<exists>body. fst (updateFile now projId filePath newContent s) = Response 200 body)
     \<longleftrightarrow> select_file projId filePath s \<noteq> None"
  by (auto simp: updateFile_def Let_def split: option.splits)

text \<open>
  C3: for every project and path with a metadata row and every content \<open>c\<close>, after
  \<open>updateFile\<close> the call \<open>getFile\<close> is answered 200 with content \<open>c\<close> and with the row,
  its size now the byte length of \<open>c\<close>.
\<close>

theorem updateFile_then_getFile:
  assumes "select_file projId filePath s = Some file"
  shows "getFile projId filePath (snd (updateFile now projId filePath newContent s)) =
           Response 200 (FileContentJson
             (file\<lparr>f_size := int (byteLength newContent), f_updated_at := now\<rparr>) newContent)"
proof -
  let ?g = "\<lambda>f. if f_id f = f_id file
                 then f\<lparr>f_size := int (byteLength newContent), f_updated_at := now\<rparr> else f"
  have "find (\<lambda>f. f_project_id f = projId \<and> f_path f = filePath) (map ?g (m_files s))
          = map_option ?g (find (\<lambda>f. f_project_id f = projId \<and> f_path f = filePath) (m_files s))"
    by (rule find_map_same) simp
  then have "select_file projId filePath (snd (updateFile now projId filePath newContent s))
          = Some (file\<lparr>f_size := int (byteLength newContent), f_updated_at := now\<rparr>)"
    using assms
    by (simp add: updateFile_def select_file_def select_file_by_id_def touch_project_def Let_def
          split: option.splits)
  moreover have "m_FILES (snd (updateFile now projId filePath newContent s))
          (projId @ ''/'' @ filePath) = Some newContent"
    using assms
    by (simp add: updateFile_def select_file_by_id_def touch_project_def Let_def
          split: option.splits)
  ultimately show ?thesis
    by (simp add: getFile_def)
qed

text \<open>C3 at the file \<open>a.txt\<close> of project \<open>p1\<close>, updated to a text of five bytes.\<close>

theorem updateFile_then_getFile_witness:
  "getFile ''p1'' ''a.txt'' (snd (updateFile 3 ''p1'' ''a.txt'' ''hello'' only_a)) =
     Response 200 (FileContentJson
       \<lparr>f_id = ''f2'', f_project_id = ''p1'', f_path = ''a.txt'', f_name = ''a.txt'',
         f_type = ''file'', f_parent_path = None, f_size = 5, f_created_at = 2,
         f_updated_at = 3\<rparr> ''hello'')"
proof -
  let ?row = "\<lparr>f_id = ''f2'', f_project_id = ''p1'', f_path = ''a.txt'', f_name = ''a.txt'',
               f_type = ''file'', f_parent_path = None, f_size = 1, f_created_at = 2,
               f_updated_at = 2\<rparr>"
  have h: "select_file ''p1'' ''a.txt'' only_a = Some ?row"
    by (simp add: only_a_eq select_file_def)
  from updateFile_then_getFile [OF h, of 3 "''hello''"] show ?thesis
    by (simp add: byteLength_def)
qed

subsection \<open>The order of the file list\<close>

text \<open>
  C4. The specification says that \<open>listFiles\<close> returns the directories first. Project \<open>p1\<close>
  below holds the directory \<open>src\<close> and the file \<open>a.txt\<close>; the list request returns the file
  first.
\<close>

theorem getFileTree_files_first:
  "fst (fetch [] 3 (get_request ''/projects/p1/files'') src_and_a) =
     Response 200 (FilesJson
       [\<lparr>f_id = ''f2'', f_project_id = ''p1'', f_path = ''a.txt'', f_name = ''a.txt'',
          f_type = ''file'', f_parent_path = None, f_size = 1, f_created_at = 2,
          f_updated_at = 2\<rparr>,
        \<lparr>f_id = ''f1'', f_project_id = ''p1'', f_path = ''src'', f_name = ''src'',
          f_type = ''directory'', f_parent_path = None, f_size = 0, f_created_at = 1,
          f_updated_at = 1\<rparr>])"
  by (simp add: src_and_a_eq pm_defs pm_samples)

subsection \<open>The size of a created file\<close>

lemma find_new_row:
  "\<not> list_ex P xs \<Longrightarrow> P x \<Longrightarrow> find P (xs @ [x]) = Some x"
  by (induction xs) auto

text \<open>
  C5 as the specification states it: the stored size of a created file is the byte length
  of the written content whatever size the caller gives. Below \<open>index.html\<close> is created
  with a content of eleven bytes and no size: the stored size is 0.
\<close>

theorem createFile_size_not_from_content:
  "createFile ''f1'' 1 ''p1'' index_html no_files =
     (Inr (Response 200 (FileJson
        \<lparr>f_id = ''f1'', f_project_id = ''p1'', f_path = ''index.html'',
          f_name = ''index.html'', f_type = ''file'', f_parent_path = None,
          f_size = 0, f_created_at = 1, f_updated_at = 1\<rparr>)),
      \<lparr>m_projects = [],
        m_files = [\<lparr>f_id = ''f1'', f_project_id = ''p1'', f_path = ''index.html'',
          f_name = ''index.html'', f_type = ''file'', f_parent_path = None,
          f_size = 0, f_created_at = 1, f_updated_at = 1\<rparr>],
        m_FILES = [''p1/index.html'' \<mapsto> ''<h1>hi</h1>'']\<rparr>)
   \<and> byteLength ''<h1>hi</h1>'' = 11"
  by (simp add: pm_defs pm_samples)

text \<open>
  C5, amended: for every \<open>createFile\<close> call with type \<open>file\<close>, a fresh id and a path not
  yet in the project, the stored FileNode's size is the size value supplied by the caller,
  0 when none is supplied, and the content written under \<open>projectId/path\<close> is the
  provided content, the empty string when none is provided.
\<close>

theorem createFile_size_from_caller:
  assumes "d_type data = ''file''"
    and "\<not> list_ex (\<lambda>f. f_id f = newId) (m_files s)"
    and "\<not> list_ex (\<lambda>f. f_project_id f = projId \<and> f_path f = d_path data) (m_files s)"
  shows "fst (createFile newId now projId data s) =
           Inr (Response 200 (FileJson
             \<lparr>f_id = newId, f_project_id = projId, f_path = d_path data,
               f_name = d_name data, f_type = ''file'',
               f_parent_path = or_null (d_parent_path data),
               f_size = or_zero (d_size data), f_created_at = now, f_updated_at = now\<rparr>))
         \<and> m_FILES (snd (createFile newId now projId data s)) (projId @ ''/'' @ d_path data)
             = Some (or_empty (d_content data))"
  using assms
  by (simp add: createFile_def insert_file_def select_file_by_id_def touch_project_def
        find_new_row Let_def)

text \<open>C5, amended, at the file \<open>a.txt\<close> created with size 1 in the project that holds the
  directory \<open>src\<close>.\<close>

theorem createFile_size_from_caller_witness:
  "fst (createFile ''f2'' 2 ''p1'' a_txt only_src) =
     Inr (Response 200 (FileJson
       \<lparr>f_id = ''f2'', f_project_id = ''p1'', f_path = ''a.txt'', f_name = ''a.txt'',
         f_type = ''file'', f_parent_path = None, f_size = 1, f_created_at = 2,
         f_updated_at = 2\<rparr>))
   \<and> m_FILES (snd (createFile ''f2'' 2 ''p1'' a_txt only_src)) ''p1/a.txt'' = Some ''x''"
proof -
  have h1: "d_type a_txt = ''file''"
    by (simp add: a_txt_def)
  have h2: "\<not> list_ex (\<lambda>f. f_id f = ''f2'') (m_files only_src)"
    by (simp add: only_src_eq)
  have h3: "\<not> list_ex (\<lambda>f. f_project_id f = ''p1'' \<and> f_path f = d_path a_txt)
                  (m_files only_src)"
    by (simp add: only_src_eq a_txt_def)
  from createFile_size_from_caller [OF h1 h2 h3, of 2] show ?thesis
    by (simp add: a_txt_def or_null_def or_zero_def or_empty_def)
qed

subsection \<open>Moving a file\<close>

text \<open>
  C9. The specification says that the Project Actor provides \<open>moveFile\<close> and \<open>renameFile\<close>
  that end with the metadata row under the new path. Project \<open>p1\<close> below holds the file
  \<open>a.txt\<close>. The move request of the editor is answered 404 by \<open>fetch\<close> and changes
  nothing. The \<open>moveFile\<close> tool reports success, and afterwards the project has no
  metadata row at all, the content lies under \<open>p1/b.txt\<close>, and \<open>getFile\<close> does not find
  \<open>b.txt\<close>.
\<close>

theorem move_loses_metadata:
  "fetch ''f3'' 3 post_move only_a = (TextResponse 404 ''Not found'', only_a)
   \<and> fst (moveFile 3 4 ''p1'' ''a.txt'' ''b.txt'' only_a)
       = ToolSuccess ''File moved from a.txt to b.txt''
   \<and> m_files (snd (moveFile 3 4 ''p1'' ''a.txt'' ''b.txt'' only_a)) = []
   \<and> m_FILES (snd (moveFile 3 4 ''p1'' ''a.txt'' ''b.txt'' only_a)) ''p1/b.txt'' = Some ''x''
   \<and> getFile ''p1'' ''b.txt'' (snd (moveFile 3 4 ''p1'' ''a.txt'' ''b.txt'' only_a))
       = TextResponse 404 ''File not found''"
  by (simp add: only_a_eq pm_defs pm_samples moveFile_def move_object_def)

end
